theory Spec2Isabelle
  imports Main "HOL-Library.Log_Nat" "HOL-Library.Multiset"
begin

section \<open>JavaScript values used by the comparison module\<close>

subsection \<open>Numbers\<close>

text \<open>
  A JavaScript Number is an IEEE 754 binary64 value. The finite ones are carried as the
  rational they denote; \<open>to_double\<close> rounds an exact rational to the nearest binary64
  (ties to even, overflow to an infinity, gradual underflow). The two zeros are not told
  apart: both are falsy, and \<open>compareMeasures\<close> replaces either by \<open>0\<close> before it
  subtracts.
\<close>

datatype jsnum = NaN | PosInf | NegInf | Fin rat

definition pow2 :: "int \<Rightarrow> rat" where
  "pow2 e = (if 0 \<le> e then 2 ^ nat e else 1 / 2 ^ nat (- e))"

definition pow10 :: "int \<Rightarrow> rat" where
  "pow10 e = (if 0 \<le> e then 10 ^ nat e else 1 / 10 ^ nat (- e))"

definition floor_log2 :: "rat \<Rightarrow> int" where
  \<comment> \<open>for \<open>0 < q\<close>: the \<open>e\<close> with \<open>2^e \<le> q < 2^(e+1)\<close>\<close>
  "floor_log2 q =
     (let e = bitlen (fst (quotient_of q)) - bitlen (snd (quotient_of q))
      in if pow2 e \<le> q then e else e - 1)"

definition round_half_even :: "rat \<Rightarrow> int" where
  "round_half_even x =
     (let f = \<lfloor>x\<rfloor>; d = x - of_int f
      in if d < 1 / 2 then f
         else if 1 / 2 < d then f + 1
         else if even f then f else f + 1)"

definition to_double :: "rat \<Rightarrow> jsnum" where
  "to_double q =
     (if q = 0 then Fin 0
      else
        let a = \<bar>q\<bar>;
            e = max (floor_log2 a) (- 1022);
            ulp = pow2 (e - 52);
            n = round_half_even (a / ulp)
        in if 1024 \<le> e \<or> (e = 1023 \<and> n = 2 ^ 53) then (if 0 < q then PosInf else NegInf)
           else Fin (if 0 < q then of_int n * ulp else - (of_int n * ulp)))"

fun num_neg :: "jsnum \<Rightarrow> jsnum" where
  "num_neg NaN = NaN"
| "num_neg PosInf = NegInf"
| "num_neg NegInf = PosInf"
| "num_neg (Fin x) = Fin (- x)"

fun num_sub :: "jsnum \<Rightarrow> jsnum \<Rightarrow> jsnum" where
  \<comment> \<open>the binary \<open>-\<close> of two Numbers\<close>
  "num_sub NaN _ = NaN"
| "num_sub _ NaN = NaN"
| "num_sub PosInf PosInf = NaN"
| "num_sub NegInf NegInf = NaN"
| "num_sub PosInf _ = PosInf"
| "num_sub NegInf _ = NegInf"
| "num_sub (Fin x) PosInf = NegInf"
| "num_sub (Fin x) NegInf = PosInf"
| "num_sub (Fin x) (Fin y) = to_double (x - y)"

fun num_gt0 :: "jsnum \<Rightarrow> bool" where
  \<comment> \<open>\<open>n > 0\<close>\<close>
  "num_gt0 PosInf = True"
| "num_gt0 (Fin x) = (0 < x)"
| "num_gt0 _ = False"

fun num_lt0 :: "jsnum \<Rightarrow> bool" where
  \<comment> \<open>\<open>n < 0\<close>\<close>
  "num_lt0 NegInf = True"
| "num_lt0 (Fin x) = (x < 0)"
| "num_lt0 _ = False"

fun num_abs :: "jsnum \<Rightarrow> jsnum" where
  \<comment> \<open>\<open>Math.abs(n)\<close>\<close>
  "num_abs NaN = NaN"
| "num_abs PosInf = PosInf"
| "num_abs NegInf = PosInf"
| "num_abs (Fin x) = Fin \<bar>x\<bar>"

fun num_truthy :: "jsnum \<Rightarrow> bool" where
  \<comment> \<open>ToBoolean on a Number: \<open>NaN\<close> and the zeros are falsy\<close>
  "num_truthy NaN = False"
| "num_truthy (Fin x) = (x \<noteq> 0)"
| "num_truthy _ = True"

definition num_or_zero :: "jsnum \<Rightarrow> jsnum" where
  \<comment> \<open>\<open>n || 0\<close>\<close>
  "num_or_zero n = (if num_truthy n then n else Fin 0)"

subsection \<open>Strings and \<open>parseFloat\<close>\<close>

text \<open>
  A \<open>string\<close> is a sequence of code units below 256. \<open>parseFloat\<close> skips leading
  white space, reads the longest prefix that is a \<open>StrDecimalLiteral\<close> (an optional sign,
  then \<open>Infinity\<close> or decimal digits with an optional fraction and an optional exponent)
  and ignores whatever follows; without such a prefix the result is \<open>NaN\<close>.
\<close>

definition is_white_space :: "char \<Rightarrow> bool" where
  "is_white_space c = (of_char c \<in> {9, 10, 11, 12, 13, 32, 160 :: nat})"

definition is_digit :: "char \<Rightarrow> bool" where
  "is_digit c = (48 \<le> (of_char c :: nat) \<and> (of_char c :: nat) \<le> 57)"

definition digit_val :: "char \<Rightarrow> int" where
  "digit_val c = of_char c - 48"

definition digits_val :: "string \<Rightarrow> int" where
  "digits_val ds = foldl (\<lambda>n c. 10 * n + digit_val c) 0 ds"

definition exponent_part :: "string \<Rightarrow> int" where
  \<comment> \<open>the value of the \<open>ExponentPart\<close> at the head of the rest, 0 when there is none\<close>
  "exponent_part s =
     (case s of
        [] \<Rightarrow> 0
      | c # r \<Rightarrow>
          if c = CHR ''e'' \<or> c = CHR ''E'' then
            (case r of
               [] \<Rightarrow> 0
             | d # r' \<Rightarrow>
                 if d = CHR ''+'' then
                   (if takeWhile is_digit r' = [] then 0 else digits_val (takeWhile is_digit r'))
                 else if d = CHR ''-'' then
                   (if takeWhile is_digit r' = [] then 0 else - digits_val (takeWhile is_digit r'))
                 else
                   (if takeWhile is_digit r = [] then 0 else digits_val (takeWhile is_digit r)))
          else 0)"

definition parse_unsigned :: "string \<Rightarrow> jsnum option" where
  \<comment> \<open>the longest prefix that is a \<open>StrUnsignedDecimalLiteral\<close>; \<open>None\<close>: there is none\<close>
  "parse_unsigned s =
     (if take 8 s = ''Infinity'' then Some PosInf
      else
        let ip = takeWhile is_digit s;
            r1 = dropWhile is_digit s;
            fp = (case r1 of [] \<Rightarrow> [] | c # t \<Rightarrow> if c = CHR ''.'' then takeWhile is_digit t else []);
            r2 = (case r1 of [] \<Rightarrow> [] | c # t \<Rightarrow> if c = CHR ''.'' then dropWhile is_digit t else r1)
        in if ip = [] \<and> fp = [] then None
           else Some (to_double (of_int (digits_val (ip @ fp))
                                  * pow10 (exponent_part r2 - int (length fp)))))"

definition parseFloat_string :: "string \<Rightarrow> jsnum" where
  "parseFloat_string s =
     (case dropWhile is_white_space s of
        [] \<Rightarrow> NaN
      | c # r \<Rightarrow>
          if c = CHR ''+'' then (case parse_unsigned r of None \<Rightarrow> NaN | Some n \<Rightarrow> n)
          else if c = CHR ''-'' then (case parse_unsigned r of None \<Rightarrow> NaN | Some n \<Rightarrow> num_neg n)
          else (case parse_unsigned (c # r) of None \<Rightarrow> NaN | Some n \<Rightarrow> n))"

definition digit_char :: "nat \<Rightarrow> char" where
  "digit_char n = char_of (48 + n)"

fun show_nat :: "nat \<Rightarrow> string" where
  \<comment> \<open>Number-to-string of a non-negative integer (below \<open>10^21\<close>, as every count here is)\<close>
  "show_nat n = (if n < 10 then [digit_char n] else show_nat (n div 10) @ [digit_char (n mod 10)])"

declare show_nat.simps [simp del]

subsection \<open>Plain objects used as dictionaries\<close>

text \<open>
  The module builds its dictionaries from the literal \<open>{}\<close> by assignments
  \<open>obj[key] = value\<close>. Such an object is carried as the list of its own properties in
  creation order. It inherits from \<open>Object.prototype\<close>: reading a name that is no own
  property yields the inherited member when \<open>Object.prototype\<close> has one, and
  \<open>undefined\<close> otherwise. Assigning to \<open>__proto__\<close> runs the inherited setter and
  creates no own property.
\<close>

type_synonym 'v jsobj = "(string \<times> 'v) list"

datatype 'v jsval = Undefined | Val 'v | Inherited string

definition object_prototype_names :: "string list" where
  "object_prototype_names =
     [''constructor'', ''hasOwnProperty'', ''isPrototypeOf'', ''propertyIsEnumerable'',
      ''toLocaleString'', ''toString'', ''valueOf'', ''__proto__'',
      ''__defineGetter__'', ''__defineSetter__'', ''__lookupGetter__'', ''__lookupSetter__'']"

definition obj_get :: "'v jsobj \<Rightarrow> string \<Rightarrow> 'v jsval" where
  \<comment> \<open>\<open>obj[key]\<close>\<close>
  "obj_get obj k =
     (case map_of obj k of
        Some v \<Rightarrow> Val v
      | None \<Rightarrow> if k \<in> set object_prototype_names then Inherited k else Undefined)"

definition obj_set :: "'v jsobj \<Rightarrow> string \<Rightarrow> 'v \<Rightarrow> 'v jsobj" where
  \<comment> \<open>\<open>obj[key] = v\<close>: the own properties afterwards\<close>
  "obj_set obj k v =
     (if k = ''__proto__'' then obj
      else if k \<in> fst ` set obj then map (\<lambda>(k', v'). if k' = k then (k', v) else (k', v')) obj
      else obj @ [(k, v)])"

definition is_array_index :: "string \<Rightarrow> bool" where
  \<comment> \<open>the canonical numeric string of an integer from 0 to \<open>2^32 - 2\<close>\<close>
  "is_array_index k =
     (k \<noteq> [] \<and> list_all is_digit k \<and> (k = ''0'' \<or> hd k \<noteq> CHR ''0'')
      \<and> digits_val k < 4294967295)"

definition own_entries :: "'v jsobj \<Rightarrow> (string \<times> 'v) list" where
  \<comment> \<open>\<open>Object.entries(obj)\<close>: array indices in ascending order, then the other names in
      creation order\<close>
  "own_entries obj =
     sort_key (\<lambda>(k, v). digits_val k) (filter (\<lambda>(k, v). is_array_index k) obj)
     @ filter (\<lambda>(k, v). \<not> is_array_index k) obj"

definition own_keys :: "'v jsobj \<Rightarrow> string list" where
  \<comment> \<open>\<open>Object.keys(obj)\<close>\<close>
  "own_keys obj = map fst (own_entries obj)"

definition own_values :: "'v jsobj \<Rightarrow> 'v list" where
  \<comment> \<open>\<open>Object.values(obj)\<close>\<close>
  "own_values obj = map snd (own_entries obj)"

fun uniq :: "'a list \<Rightarrow> 'a list" where
  \<comment> \<open>\<open>[...new Set(xs)]\<close>: the first occurrence of every element, in order\<close>
  "uniq [] = []"
| "uniq (x # xs) = x # uniq (filter (\<lambda>y. y \<noteq> x) xs)"

definition to_string :: "string jsval \<Rightarrow> string" where
  \<comment> \<open>ToString of what a lookup in a dictionary of strings returns; the inherited members
      are functions (printed as Node prints a built-in function), but for \<open>__proto__\<close>,
      which reads as the object \<open>Object.prototype\<close>\<close>
  "to_string v =
     (case v of
        Undefined \<Rightarrow> ''undefined''
      | Val s \<Rightarrow> s
      | Inherited k \<Rightarrow>
          if k = ''__proto__'' then ''[object Object]''
          else if k = ''constructor'' then ''function Object() { [native code] }''
          else ''function '' @ k @ ''() { [native code] }'')"

definition parseFloat :: "string jsval \<Rightarrow> jsnum" where
  "parseFloat v = parseFloat_string (to_string v)"

definition or_string_zero :: "string jsval \<Rightarrow> string jsval" where
  \<comment> \<open>\<open>v || '0'\<close>: \<open>undefined\<close> and the empty string are falsy, an object is truthy\<close>
  "or_string_zero v =
     (case v of
        Undefined \<Rightarrow> Val ''0''
      | Val s \<Rightarrow> if s = [] then Val ''0'' else Val s
      | Inherited k \<Rightarrow> Inherited k)"

definition or_zero :: "nat jsval \<Rightarrow> nat" where
  \<comment> \<open>\<open>n || 0\<close> on a count; \<open>compareIssues\<close> reads only the five names it has just
      written, none of which \<open>Object.prototype\<close> has\<close>
  "or_zero v = (case v of Val n \<Rightarrow> n | _ \<Rightarrow> 0)"

section \<open>Snapshots and comparisons\<close>

text \<open>
  A snapshot is the parsed content of a saved report. A measure carries its metric name and
  its value as strings, as the analysis service delivers them (\<open>mvalue\<close> is the field
  \<open>value\<close>); of an issue only the \<open>severity\<close> is read, which may be absent. The
  \<open>measures\<close> and \<open>issues\<close> of a snapshot may be absent (\<open>Absent\<close>), present without
  being arrays (\<open>NotArray\<close>) or arrays of such records; \<open>projectInfo\<close>,
  \<open>qualityGate\<close>, \<open>timestamp\<close> and the \<open>status\<close> of a gate may be absent (\<open>None\<close>).
\<close>

record measure =
  metric :: string
  mvalue :: string

record issue =
  severity :: "string option"

record gate =
  status :: "string option"

record project_info =
  name :: "string option"

datatype 'a jsfield = Absent | NotArray | IsArray "'a list"

record snapshot =
  projectInfo :: "project_info option"
  qualityGate :: "gate option"
  measures :: "measure jsfield"
  issues :: "issue jsfield"
  timestamp :: "string option"

text \<open>
  A sub-comparison is either \<open>{available: false}\<close> or an object with
  \<open>available: true\<close> and its other fields. In a change, \<open>from_value\<close> and
  \<open>to_value\<close> are the fields \<open>from\<close> and \<open>to\<close>: for a measure what is displayed (a
  string, or an inherited member of the dictionary), for an issue count a number. In the
  summary \<open>qualityGate_text\<close> is the field \<open>qualityGate\<close>, and \<open>summary_of\<close> is the
  field \<open>summary\<close> of a comparison, the empty object until the summary is generated.
\<close>

datatype 'a block = Unavailable | Available 'a

fun available :: "'a block \<Rightarrow> bool" where
  "available Unavailable = False"
| "available (Available x) = True"

record gate_change =
  fromStatus :: "string option"
  toStatus :: "string option"
  improved :: bool
  degraded :: bool

record ('v, 'n) change =
  from_value :: 'v
  to_value :: 'v
  diff :: 'n
  improved :: bool

type_synonym measure_change = "(string jsval, jsnum) change"

type_synonym count_change = "(nat, int) change"

record issues_change =
  changes :: "count_change jsobj"
  total :: count_change

record summary =
  qualityGate_text :: string
  improvements :: "string list"
  degradations :: "string list"

datatype summary_field = EmptyObject | Summary summary

record comparison =
  project :: string
  fromDate :: string
  toDate :: string
  qualityGateChange :: "gate_change block"
  measuresChange :: "measure_change jsobj block"
  issuesChange :: "issues_change block"
  summary_of :: summary_field

section \<open>The comparison functions\<close>

definition compareQualityGate :: "gate option \<Rightarrow> gate option \<Rightarrow> gate_change block" where
  "compareQualityGate from to =
     (case (from, to) of
        (Some f, Some t) \<Rightarrow>
          Available \<lparr> fromStatus = status f, toStatus = status t,
            improved = (status f \<noteq> Some ''OK'' \<and> status t = Some ''OK''),
            degraded = (status f = Some ''OK'' \<and> status t \<noteq> Some ''OK'') \<rparr>
      | _ \<Rightarrow> Unavailable)"

definition measures_obj :: "measure list \<Rightarrow> string jsobj" where
  \<comment> \<open>\<open>xs.reduce((obj, measure) => { obj[measure.metric] = measure.value; return obj }, {})\<close>\<close>
  "measures_obj xs = foldl (\<lambda>obj m. obj_set obj (metric m) (mvalue m)) [] xs"

definition is_improved :: "string \<Rightarrow> jsnum \<Rightarrow> bool" where
  "is_improved m d =
     (if m = ''coverage'' then num_gt0 d
      else if m \<in> set [''bugs'', ''vulnerabilities'', ''code_smells'', ''duplicated_lines_density'']
        then num_lt0 d
      else False)"

definition measure_change_of :: "string jsobj \<Rightarrow> string jsobj \<Rightarrow> string \<Rightarrow> measure_change" where
  \<comment> \<open>the body of the loop over \<open>allMetrics\<close>\<close>
  "measure_change_of fromObj toObj m =
     (let fromValue = num_or_zero (parseFloat (obj_get fromObj m));
          toValue = num_or_zero (parseFloat (obj_get toObj m));
          d = num_sub toValue fromValue
      in \<lparr> from_value = or_string_zero (obj_get fromObj m),
           to_value = or_string_zero (obj_get toObj m),
           diff = d,
           improved = is_improved m d \<rparr>)"

definition all_metrics :: "string jsobj \<Rightarrow> string jsobj \<Rightarrow> string list" where
  \<comment> \<open>\<open>[...new Set([...Object.keys(fromObj), ...Object.keys(toObj)])]\<close>\<close>
  "all_metrics fromObj toObj = uniq (own_keys fromObj @ own_keys toObj)"

definition compareMeasures :: "measure jsfield \<Rightarrow> measure jsfield \<Rightarrow> measure_change jsobj block" where
  "compareMeasures from to =
     (case (from, to) of
        (IsArray f, IsArray t) \<Rightarrow>
          let fromObj = measures_obj f;
              toObj = measures_obj t;
              allMetrics = all_metrics fromObj toObj
          in Available
               (foldl (\<lambda>chs m. obj_set chs m (measure_change_of fromObj toObj m)) [] allMetrics)
      | _ \<Rightarrow> Unavailable)"

definition severities :: "string list" where
  "severities = [''BLOCKER'', ''CRITICAL'', ''MAJOR'', ''MINOR'', ''INFO'']"

definition count_severity :: "issue list \<Rightarrow> string \<Rightarrow> nat" where
  \<comment> \<open>\<open>xs.filter(issue => issue.severity === s).length\<close>\<close>
  "count_severity xs s = length (filter (\<lambda>i. severity i = Some s) xs)"

definition severity_counts :: "issue list \<Rightarrow> nat jsobj" where
  \<comment> \<open>\<open>severities.reduce((counts, s) => { counts[s] = ...; return counts }, {})\<close>\<close>
  "severity_counts xs =
     foldl (\<lambda>counts s. obj_set counts s (count_severity xs s)) [] severities"

definition count_change_of :: "nat \<Rightarrow> nat \<Rightarrow> count_change" where
  "count_change_of fromCount toCount =
     \<lparr> from_value = fromCount, to_value = toCount,
       diff = int toCount - int fromCount,
       improved = (int toCount - int fromCount < 0) \<rparr>"

definition compareIssues :: "issue jsfield \<Rightarrow> issue jsfield \<Rightarrow> issues_change block" where
  "compareIssues from to =
     (case (from, to) of
        (IsArray f, IsArray t) \<Rightarrow>
          let fromCounts = severity_counts f;
              toCounts = severity_counts t;
              chs = foldl (\<lambda>chs s. obj_set chs s
                             (count_change_of (or_zero (obj_get fromCounts s))
                                              (or_zero (obj_get toCounts s))))
                      [] severities;
              totalFrom = foldl (\<lambda>sum count. sum + count) 0 (own_values fromCounts);
              totalTo = foldl (\<lambda>sum count. sum + count) 0 (own_values toCounts)
          in Available \<lparr> changes = chs, total = count_change_of totalFrom totalTo \<rparr>
      | _ \<Rightarrow> Unavailable)"

definition measure_line :: "string \<Rightarrow> measure_change \<Rightarrow> string" where
  \<comment> \<open>the template \<open>`${metric}: ${change.from} -> ${change.to}`\<close>\<close>
  "measure_line m ch =
     m @ '': '' @ to_string (from_value ch) @ '' -> '' @ to_string (to_value ch)"

definition total_line :: "count_change \<Rightarrow> string \<Rightarrow> string" where
  \<comment> \<open>the template \<open>`Total issues: ${from} -> ${to} (${Math.abs(diff)} fixed)`\<close>, and the
      same with \<open>new\<close>\<close>
  "total_line t word =
     ''Total issues: '' @ show_nat (from_value t) @ '' -> '' @ show_nat (to_value t)
     @ '' ('' @ show_nat (nat \<bar>diff t\<bar>) @ '' '' @ word @ '')''"

definition summarize_gate :: "gate_change block \<Rightarrow> summary \<Rightarrow> summary" where
  "summarize_gate qg s =
     (case qg of
        Unavailable \<Rightarrow> s
      | Available g \<Rightarrow>
          if gate_change.improved g then s\<lparr>qualityGate_text := ''Improved (Failed -> Passed)''\<rparr>
          else if degraded g then s\<lparr>qualityGate_text := ''Degraded (Passed -> Failed)''\<rparr>
          else s)"

definition summarize_measure :: "summary \<Rightarrow> string \<times> measure_change \<Rightarrow> summary" where
  \<comment> \<open>the body of the loop over \<open>Object.entries(changes)\<close>\<close>
  "summarize_measure s e =
     (case e of (m, ch) \<Rightarrow>
        if improved ch \<and> num_gt0 (num_abs (diff ch))
          then s\<lparr>improvements := improvements s @ [measure_line m ch]\<rparr>
        else if \<not> improved ch \<and> num_gt0 (num_abs (diff ch))
          then s\<lparr>degradations := degradations s @ [measure_line m ch]\<rparr>
        else s)"

definition summarize_measures :: "measure_change jsobj block \<Rightarrow> summary \<Rightarrow> summary" where
  "summarize_measures mc s =
     (case mc of
        Unavailable \<Rightarrow> s
      | Available chs \<Rightarrow> foldl summarize_measure s (own_entries chs))"

definition summarize_issues :: "issues_change block \<Rightarrow> summary \<Rightarrow> summary" where
  "summarize_issues ic s =
     (case ic of
        Unavailable \<Rightarrow> s
      | Available r \<Rightarrow>
          if diff (total r) \<noteq> 0 then
            (if improved (total r)
               then s\<lparr>improvements := improvements s @ [total_line (total r) ''fixed'']\<rparr>
             else s\<lparr>degradations := degradations s @ [total_line (total r) ''new'']\<rparr>)
          else s)"

definition generateSummary :: "comparison \<Rightarrow> summary" where
  "generateSummary c =
     summarize_issues (issuesChange c)
       (summarize_measures (measuresChange c)
          (summarize_gate (qualityGateChange c)
             \<lparr> qualityGate_text = ''No change'', improvements = [], degradations = [] \<rparr>))"

definition or_unknown :: "string option \<Rightarrow> string" where
  \<comment> \<open>\<open>s || 'Unknown'\<close>\<close>
  "or_unknown v = (case v of None \<Rightarrow> ''Unknown'' | Some s \<Rightarrow> if s = [] then ''Unknown'' else s)"

definition compareQualityData :: "snapshot \<Rightarrow> snapshot \<Rightarrow> comparison" where
  "compareQualityData fromData toData =
     (let result =
            \<lparr> project = or_unknown (case projectInfo toData of None \<Rightarrow> None | Some p \<Rightarrow> name p),
              fromDate = or_unknown (timestamp fromData),
              toDate = or_unknown (timestamp toData),
              qualityGateChange = compareQualityGate (qualityGate fromData) (qualityGate toData),
              measuresChange = compareMeasures (measures fromData) (measures toData),
              issuesChange = compareIssues (issues fromData) (issues toData),
              summary_of = EmptyObject \<rparr>
      in result\<lparr>summary_of := Summary (generateSummary result)\<rparr>)"

fun isArray :: "'a jsfield \<Rightarrow> bool" where
  \<comment> \<open>\<open>Array.isArray(x)\<close>\<close>
  "isArray (IsArray xs) = True"
| "isArray _ = False"

definition proper_obj :: "'v jsobj \<Rightarrow> bool" where
  \<comment> \<open>what every object built from \<open>{}\<close> by assignments satisfies\<close>
  "proper_obj obj = (distinct (map fst obj) \<and> ''__proto__'' \<notin> fst ` set obj)"

definition recognised :: "issue \<Rightarrow> bool" where
  \<comment> \<open>the severity of the issue is one of the five\<close>
  "recognised i = (severity i \<in> Some ` set severities)"

definition total_count :: "issue list \<Rightarrow> nat" where
  \<comment> \<open>the sum of the five per-severity counts\<close>
  "total_count xs = sum_list (map (count_severity xs) severities)"

definition measure_entries :: "comparison \<Rightarrow> (string \<times> measure_change) list" where
  \<comment> \<open>the entries of \<open>measuresChange.changes\<close>, none when the block is unavailable\<close>
  "measure_entries c = (case measuresChange c of Unavailable \<Rightarrow> [] | Available chs \<Rightarrow> chs)"

definition nonzero_number :: "jsnum \<Rightarrow> bool" where
  \<comment> \<open>a Number other than \<open>NaN\<close> and zero\<close>
  "nonzero_number d = (d \<noteq> NaN \<and> d \<noteq> Fin 0)"

definition issue_lines :: "comparison \<Rightarrow> bool \<Rightarrow> string list" where
  \<comment> \<open>the line about the total of the issues that belongs to the improvements
      (\<open>imp\<close>) or to the degradations (\<open>\<not> imp\<close>), if there is one\<close>
  "issue_lines c imp =
     (case issuesChange c of
        Unavailable \<Rightarrow> []
      | Available r \<Rightarrow>
          if diff (total r) \<noteq> 0 \<and> change.improved (total r) = imp
          then [total_line (total r) (if imp then ''fixed'' else ''new'')] else [])"

section \<open>Properties of the dictionaries\<close>

lemma map_fst_obj_set:
  "map fst (obj_set obj k v) =
     (if k = ''__proto__'' \<or> k \<in> fst ` set obj then map fst obj else map fst obj @ [k])"
  by (induction obj) (auto simp: obj_set_def)

lemma proper_obj_Nil: "proper_obj []"
  by (simp add: proper_obj_def)

lemma proper_obj_set: "proper_obj obj \<Longrightarrow> proper_obj (obj_set obj k v)"
  by (auto simp: proper_obj_def map_fst_obj_set simp flip: set_map)

lemma keys_obj_set:
  "fst ` set (obj_set obj k v) =
     (if k = ''__proto__'' then fst ` set obj else insert k (fst ` set obj))"
  using map_fst_obj_set [of obj k v] by (auto simp flip: set_map)

lemma map_of_replace:
  "map_of (map (\<lambda>(k', v'). if k' = k then (k', v) else (k', v')) obj) k' =
     (if k' = k then map_option (\<lambda>_. v) (map_of obj k) else map_of obj k')"
  by (induction obj) auto

lemma map_of_obj_set:
  "map_of (obj_set obj k v) k' =
     (if k = ''__proto__'' then map_of obj k'
      else if k' = k then Some v else map_of obj k')"
proof (cases "k \<in> fst ` set obj")
  case True
  then obtain w where "map_of obj k = Some w"
    by (metis map_of_eq_None_iff not_Some_eq)
  with True show ?thesis
    by (simp add: obj_set_def map_of_replace)
next
  case False
  then have "map_of obj k = None"
    by (simp add: map_of_eq_None_iff)
  with False show ?thesis
    by (auto simp: obj_set_def map_add_def split: option.splits)
qed

lemma foldl_obj_set_fresh:
  "distinct ks \<Longrightarrow> ''__proto__'' \<notin> set ks \<Longrightarrow> set ks \<inter> fst ` set obj = {} \<Longrightarrow>
   foldl (\<lambda>ob k. obj_set ob k (g k)) obj ks = obj @ map (\<lambda>k. (k, g k)) ks"
proof (induction ks arbitrary: obj)
  case Nil
  then show ?case by simp
next
  case (Cons k ks)
  from Cons.prems have step: "obj_set obj k (g k) = obj @ [(k, g k)]"
    by (auto simp: obj_set_def)
  from Cons.prems have "set ks \<inter> fst ` set (obj @ [(k, g k)]) = {}"
    by auto
  with Cons.prems Cons.IH [of "obj @ [(k, g k)]"] step show ?case
    by simp
qed

lemma map_of_tabulate:
  "map_of (map (\<lambda>k. (k, g k)) ks) m = (if m \<in> set ks then Some (g m) else None)"
  by (induction ks) auto

lemma set_own_entries: "set (own_entries obj) = set obj"
  by (auto simp: own_entries_def)

lemma mset_own_entries: "mset (own_entries obj) = mset obj"
  by (simp add: own_entries_def)

lemma set_own_keys: "set (own_keys obj) = fst ` set obj"
  by (simp add: own_keys_def set_own_entries)

lemma set_uniq: "set (uniq xs) = set xs"
  by (induction xs rule: uniq.induct) auto

lemma distinct_uniq: "distinct (uniq xs)"
  by (induction xs rule: uniq.induct) (auto simp: set_uniq)

section \<open>Properties of the measure comparison\<close>

lemma measures_obj_snoc:
  "measures_obj (xs @ [x]) = obj_set (measures_obj xs) (metric x) (mvalue x)"
  by (simp add: measures_obj_def)

text \<open>The keys of a dictionary of measures are distinct, and \<open>__proto__\<close> is none of them.\<close>

lemma proper_measures_obj: "proper_obj (measures_obj xs)"
  by (induction xs rule: rev_induct)
     (simp_all add: measures_obj_snoc proper_obj_set, simp add: measures_obj_def proper_obj_Nil)

lemma keys_measures_obj:
  "fst ` set (measures_obj xs) = metric ` set xs - {''__proto__''}"
  by (induction xs rule: rev_induct)
     (auto simp: measures_obj_snoc keys_obj_set, simp_all add: measures_obj_def)

lemma map_of_measures_obj_other:
  assumes "m \<noteq> ''__proto__''"
  shows "map_of (measures_obj xs) m =
     (if m \<in> metric ` set xs
      then Some (mvalue (last (filter (\<lambda>x. metric x = m) xs))) else None)"
proof (induction xs rule: rev_induct)
  case Nil
  then show ?case by (simp add: measures_obj_def)
next
  case (snoc x xs)
  show ?case
  proof (cases "metric x = m")
    case True
    with assms show ?thesis
      by (simp add: measures_obj_snoc map_of_obj_set)
  next
    case False
    with snoc assms show ?thesis
      by (auto simp: measures_obj_snoc map_of_obj_set)
  qed
qed

lemma set_all_metrics:
  "set (all_metrics (measures_obj f) (measures_obj t))
     = set (own_keys (measures_obj f)) \<union> set (own_keys (measures_obj t))"
  by (simp add: all_metrics_def set_uniq)

lemma compareMeasures_changes:
  "compareMeasures (IsArray f) (IsArray t) =
     Available (map (\<lambda>m. (m, measure_change_of (measures_obj f) (measures_obj t) m))
                 (all_metrics (measures_obj f) (measures_obj t)))"
proof -
  let ?ks = "all_metrics (measures_obj f) (measures_obj t)"
  have "distinct ?ks"
    by (simp add: all_metrics_def distinct_uniq)
  moreover have "''__proto__'' \<notin> set ?ks"
    by (simp add: set_all_metrics set_own_keys keys_measures_obj)
  ultimately show ?thesis
    using foldl_obj_set_fresh [of ?ks "[]" "measure_change_of (measures_obj f) (measures_obj t)"]
    by (simp add: compareMeasures_def Let_def)
qed

lemma obj_get_changes:
  assumes "m \<in> set ks"
  shows "obj_get (map (\<lambda>m. (m, g m)) ks) m = Val (g m)"
  using assms by (simp add: obj_get_def map_of_tabulate)

text \<open>
  C1. In \<open>compareMeasures\<close>, every metric among the keys of the two dictionaries has an
  entry whose \<open>improved\<close> flag follows the polarity table: for \<open>coverage\<close> it holds iff
  the difference is positive; for \<open>bugs\<close>, \<open>vulnerabilities\<close>, \<open>code_smells\<close> and
  \<open>duplicated_lines_density\<close> it holds iff the difference is negative; for every other
  metric it is false whatever the sign of the difference.
\<close>

theorem compareMeasures_polarity_table:
  assumes "m \<in> set (own_keys (measures_obj f)) \<union> set (own_keys (measures_obj t))"
  shows "\<exists>chs c. compareMeasures (IsArray f) (IsArray t) = Available chs
           \<and> obj_get chs m = Val c
           \<and> (m = ''coverage'' \<longrightarrow> change.improved c = num_gt0 (diff c))
           \<and> (m \<in> {''bugs'', ''vulnerabilities'', ''code_smells'', ''duplicated_lines_density''}
                \<longrightarrow> change.improved c = num_lt0 (diff c))
           \<and> (m \<notin> {''coverage'', ''bugs'', ''vulnerabilities'', ''code_smells'',
                     ''duplicated_lines_density''}
                \<longrightarrow> \<not> change.improved c)"
proof -
  let ?g = "measure_change_of (measures_obj f) (measures_obj t)"
  let ?ks = "all_metrics (measures_obj f) (measures_obj t)"
  from assms have "m \<in> set ?ks"
    by (simp add: set_all_metrics)
  then have get: "obj_get (map (\<lambda>m. (m, ?g m)) ?ks) m = Val (?g m)"
    by (rule obj_get_changes)
  have "change.improved (?g m) = is_improved m (diff (?g m))"
    by (simp add: measure_change_of_def Let_def)
  then have flags:
    "(m = ''coverage'' \<longrightarrow> change.improved (?g m) = num_gt0 (diff (?g m)))
     \<and> (m \<in> {''bugs'', ''vulnerabilities'', ''code_smells'', ''duplicated_lines_density''}
          \<longrightarrow> change.improved (?g m) = num_lt0 (diff (?g m)))
     \<and> (m \<notin> {''coverage'', ''bugs'', ''vulnerabilities'', ''code_smells'',
               ''duplicated_lines_density''}
          \<longrightarrow> \<not> change.improved (?g m))"
    by (auto simp: is_improved_def)
  from compareMeasures_changes [of f t] get flags
  have "compareMeasures (IsArray f) (IsArray t) = Available (map (\<lambda>m. (m, ?g m)) ?ks)
        \<and> obj_get (map (\<lambda>m. (m, ?g m)) ?ks) m = Val (?g m)
        \<and> (m = ''coverage'' \<longrightarrow> change.improved (?g m) = num_gt0 (diff (?g m)))
        \<and> (m \<in> {''bugs'', ''vulnerabilities'', ''code_smells'', ''duplicated_lines_density''}
             \<longrightarrow> change.improved (?g m) = num_lt0 (diff (?g m)))
        \<and> (m \<notin> {''coverage'', ''bugs'', ''vulnerabilities'', ''code_smells'',
                  ''duplicated_lines_density''}
             \<longrightarrow> \<not> change.improved (?g m))"
    by (simp only: simp_thms)
  then show ?thesis
    by - (rule exI, rule exI, assumption)
qed

theorem compareMeasures_polarity_table_witness:
  "''coverage'' \<in> set (own_keys (measures_obj [\<lparr>metric = ''coverage'', mvalue = ''70''\<rparr>]))
                   \<union> set (own_keys (measures_obj [\<lparr>metric = ''coverage'', mvalue = ''85''\<rparr>]))
   \<and> (\<exists>chs c. compareMeasures (IsArray [\<lparr>metric = ''coverage'', mvalue = ''70''\<rparr>])
                               (IsArray [\<lparr>metric = ''coverage'', mvalue = ''85''\<rparr>]) = Available chs
           \<and> obj_get chs ''coverage'' = Val c
           \<and> (''coverage'' = ''coverage'' \<longrightarrow> change.improved c = num_gt0 (diff c))
           \<and> (''coverage'' \<in> {''bugs'', ''vulnerabilities'', ''code_smells'', ''duplicated_lines_density''}
                \<longrightarrow> change.improved c = num_lt0 (diff c))
           \<and> (''coverage'' \<notin> {''coverage'', ''bugs'', ''vulnerabilities'', ''code_smells'',
                     ''duplicated_lines_density''}
                \<longrightarrow> \<not> change.improved c))"
proof -
  have h: "''coverage'' \<in> set (own_keys (measures_obj [\<lparr>metric = ''coverage'', mvalue = ''70''\<rparr>]))
                   \<union> set (own_keys (measures_obj [\<lparr>metric = ''coverage'', mvalue = ''85''\<rparr>]))"
    by code_simp
  from h compareMeasures_polarity_table [OF h] show ?thesis
    by (rule conjI)
qed

text \<open>
  The worked examples of the specification: coverage rising from 70 to 85 and bugs falling
  from 5 to 2 are both improvements.
\<close>

lemma compareMeasures_coverage_example:
  "compareMeasures (IsArray [\<lparr>metric = ''coverage'', mvalue = ''70''\<rparr>])
                   (IsArray [\<lparr>metric = ''coverage'', mvalue = ''85''\<rparr>])
     = Available [(''coverage'', \<lparr>from_value = Val ''70'', to_value = Val ''85'',
                                  diff = Fin 15, improved = True\<rparr>)]"
  by code_simp

lemma compareMeasures_bugs_example:
  "compareMeasures (IsArray [\<lparr>metric = ''bugs'', mvalue = ''5''\<rparr>])
                   (IsArray [\<lparr>metric = ''bugs'', mvalue = ''2''\<rparr>])
     = Available [(''bugs'', \<lparr>from_value = Val ''5'', to_value = Val ''2'',
                              diff = Fin (- 3), improved = True\<rparr>)]"
  by code_simp

text \<open>
  Last write wins among the keys that are stored: every key of a side's dictionary maps to
  the value of the last measure of the sequence that carries the key, and the keys are the
  metric names of the sequence, \<open>__proto__\<close> apart.
\<close>

lemma measures_obj_stored_last_value:
  "set (own_keys (measures_obj xs)) = metric ` set xs - {''__proto__''}
   \<and> (\<forall>m \<in> set (own_keys (measures_obj xs)).
         obj_get (measures_obj xs) m = Val (mvalue (last (filter (\<lambda>x. metric x = m) xs))))"
  by (auto simp: set_own_keys keys_measures_obj obj_get_def map_of_measures_obj_other)

lemma measures_obj_stored_last_value_example:
  "obj_get (measures_obj
       [\<lparr>metric = ''bugs'', mvalue = ''5''\<rparr>, \<lparr>metric = ''coverage'', mvalue = ''70''\<rparr>,
        \<lparr>metric = ''bugs'', mvalue = ''2''\<rparr>]) ''bugs'' = Val ''2''"
  by code_simp

text \<open>
  C9. When a side's sequence holds a metric key more than once, the value of its last
  occurrence is meant to be the one in that side's dictionary. For the key \<open>__proto__\<close>
  it is not: the assignment \<open>obj['__proto__'] = value\<close> runs the setter every object
  inherits and stores nothing, so two measures named \<open>__proto__\<close> with the values 5 and 7
  leave the dictionary empty, the lookup of the name yields \<open>Object.prototype\<close> and not
  the value 7, and the metric has no entry in the comparison. For every other key the last
  value is the one stored (\<open>measures_obj_stored_last_value\<close>).
\<close>

theorem measures_obj_proto_duplicates:
  "measures_obj [\<lparr>metric = ''__proto__'', mvalue = ''5''\<rparr>,
                 \<lparr>metric = ''__proto__'', mvalue = ''7''\<rparr>] = []
   \<and> obj_get (measures_obj [\<lparr>metric = ''__proto__'', mvalue = ''5''\<rparr>,
                            \<lparr>metric = ''__proto__'', mvalue = ''7''\<rparr>]) ''__proto__''
       = Inherited ''__proto__''
   \<and> compareMeasures (IsArray [\<lparr>metric = ''__proto__'', mvalue = ''5''\<rparr>,
                               \<lparr>metric = ''__proto__'', mvalue = ''7''\<rparr>]) (IsArray [])
       = Available []"
  by code_simp

section \<open>Properties of the quality-gate comparison\<close>

text \<open>
  C2. For two present quality gates the result is available, \<open>improved\<close> holds iff the
  first status is not \<open>OK\<close> and the second is, \<open>degraded\<close> holds iff the first status is
  \<open>OK\<close> and the second is not, and both are false otherwise (equal statuses, or two
  statuses other than \<open>OK\<close>); when either gate is absent the result is
  \<open>{available: false}\<close>.
\<close>

theorem compareQualityGate_rule:
  "(\<exists>g. compareQualityGate (Some f) (Some t) = Available g
        \<and> available (compareQualityGate (Some f) (Some t))
        \<and> fromStatus g = status f \<and> toStatus g = status t
        \<and> (gate_change.improved g \<longleftrightarrow> status f \<noteq> Some ''OK'' \<and> status t = Some ''OK'')
        \<and> (degraded g \<longleftrightarrow> status f = Some ''OK'' \<and> status t \<noteq> Some ''OK'')
        \<and> (status f = status t \<longrightarrow> \<not> gate_change.improved g \<and> \<not> degraded g)
        \<and> (status f \<noteq> Some ''OK'' \<and> status t \<noteq> Some ''OK''
             \<longrightarrow> \<not> gate_change.improved g \<and> \<not> degraded g))
   \<and> compareQualityGate None y = Unavailable
   \<and> compareQualityGate x None = Unavailable"
  by (cases x) (auto simp: compareQualityGate_def)

theorem compareQualityGate_rule_witness:
  "(\<exists>g. compareQualityGate (Some \<lparr>status = Some ''FAILED''\<rparr>) (Some \<lparr>status = Some ''OK''\<rparr>)
          = Available g
        \<and> gate_change.improved g \<and> \<not> degraded g)
   \<and> compareQualityGate None (Some \<lparr>status = Some ''OK''\<rparr>) = Unavailable
   \<and> compareQualityGate (Some \<lparr>status = Some ''FAILED''\<rparr>) None = Unavailable"
  using compareQualityGate_rule [of "\<lparr>status = Some ''FAILED''\<rparr>" "\<lparr>status = Some ''OK''\<rparr>"
          "Some \<lparr>status = Some ''OK''\<rparr>" "Some \<lparr>status = Some ''FAILED''\<rparr>"]
  by auto

lemma compareQualityGate_examples:
  "compareQualityGate (Some \<lparr>status = Some ''FAILED''\<rparr>) (Some \<lparr>status = Some ''OK''\<rparr>)
     = Available \<lparr>fromStatus = Some ''FAILED'', toStatus = Some ''OK'',
                  improved = True, degraded = False\<rparr>"
  "compareQualityGate (Some \<lparr>status = Some ''OK''\<rparr>) (Some \<lparr>status = Some ''FAILED''\<rparr>)
     = Available \<lparr>fromStatus = Some ''OK'', toStatus = Some ''FAILED'',
                  improved = False, degraded = True\<rparr>"
  "compareQualityGate (Some \<lparr>status = Some ''OK''\<rparr>) (Some \<lparr>status = Some ''OK''\<rparr>)
     = Available \<lparr>fromStatus = Some ''OK'', toStatus = Some ''OK'',
                  improved = False, degraded = False\<rparr>"
  by (simp_all add: compareQualityGate_def)



section \<open>Properties of the issue comparison\<close>

lemma severities_fresh:
  "distinct severities" "''__proto__'' \<notin> set severities"
  "set severities \<inter> set object_prototype_names = {}"
  by (simp_all add: severities_def object_prototype_names_def)

lemma severity_counts_eq:
  "severity_counts xs = map (\<lambda>s. (s, count_severity xs s)) severities"
  using foldl_obj_set_fresh [of severities "[]" "count_severity xs"] severities_fresh
  by (simp add: severity_counts_def)

lemma not_index_severities: "s \<in> set severities \<Longrightarrow> \<not> is_array_index s"
  by (auto simp: severities_def is_array_index_def is_digit_def)

lemma own_entries_no_index:
  "\<forall>k \<in> fst ` set obj. \<not> is_array_index k \<Longrightarrow> own_entries obj = obj"
proof -
  assume a: "\<forall>k \<in> fst ` set obj. \<not> is_array_index k"
  then have "filter (\<lambda>(k, v). is_array_index k) obj = []"
    by (auto simp: filter_empty_conv)
  moreover from a have "filter (\<lambda>(k, v). \<not> is_array_index k) obj = obj"
    by (auto simp: filter_id_conv)
  ultimately show ?thesis
    by (simp add: own_entries_def)
qed

lemma own_values_severity_counts:
  "own_values (severity_counts xs) = map (count_severity xs) severities"
proof -
  have "own_entries (severity_counts xs) = severity_counts xs"
    by (rule own_entries_no_index) (auto simp: severity_counts_eq not_index_severities)
  then show ?thesis
    by (simp add: own_values_def severity_counts_eq comp_def)
qed

lemma foldl_add_sum_list: "foldl (\<lambda>sum count. sum + count) (a::nat) ns = a + sum_list ns"
  by (induction ns arbitrary: a) simp_all

lemma or_zero_severity_counts:
  "s \<in> set severities \<Longrightarrow> or_zero (obj_get (severity_counts xs) s) = count_severity xs s"
  by (simp add: severity_counts_eq obj_get_def map_of_tabulate or_zero_def)

lemma compareIssues_eq:
  "compareIssues (IsArray f) (IsArray t) =
     Available \<lparr> changes = map (\<lambda>s. (s, count_change_of (count_severity f s) (count_severity t s)))
                             severities,
                 total = count_change_of (total_count f) (total_count t) \<rparr>"
proof -
  have "foldl (\<lambda>chs s. obj_set chs s
                 (count_change_of (or_zero (obj_get (severity_counts f) s))
                                  (or_zero (obj_get (severity_counts t) s)))) [] severities
        = map (\<lambda>s. (s, count_change_of (or_zero (obj_get (severity_counts f) s))
                                  (or_zero (obj_get (severity_counts t) s)))) severities"
    using foldl_obj_set_fresh [of severities "[]"
        "\<lambda>s. count_change_of (or_zero (obj_get (severity_counts f) s))
                                  (or_zero (obj_get (severity_counts t) s))"] severities_fresh
    by simp
  also have "\<dots> = map (\<lambda>s. (s, count_change_of (count_severity f s) (count_severity t s))) severities"
    by (rule map_cong) (simp_all add: or_zero_severity_counts)
  finally show ?thesis
    by (simp add: compareIssues_def Let_def own_values_severity_counts foldl_add_sum_list
        total_count_def)
qed

lemma sum_counts_distinct:
  "distinct ks \<Longrightarrow>
   sum_list (map (count_severity xs) ks)
     = length (filter (\<lambda>i. severity i \<in> Some ` set ks) xs)"
proof (induction ks)
  case Nil
  then show ?case by (simp add: count_severity_def)
next
  case (Cons k ks)
  have "length (filter (\<lambda>i. severity i \<in> Some ` set (k # ks)) xs)
        = length (filter (\<lambda>i. severity i = Some k) xs)
          + length (filter (\<lambda>i. severity i \<in> Some ` set ks) xs)"
    using Cons.prems by (induction xs) auto
  with Cons show ?case
    by (simp add: count_severity_def)
qed

lemma total_count_recognised:
  "total_count xs = length (filter (\<lambda>i. severity i \<in> Some ` set severities) xs)"
  by (simp add: total_count_def sum_counts_distinct severities_fresh)

lemma count_severity_filter_recognised:
  "s \<in> set severities \<Longrightarrow> count_severity (filter recognised xs) s = count_severity xs s"
proof -
  assume "s \<in> set severities"
  then have "(\<lambda>i. recognised i \<and> severity i = Some s) = (\<lambda>i. severity i = Some s)"
    by (auto simp: recognised_def)
  then show ?thesis
    by (simp add: count_severity_def conj_commute)
qed

lemma total_count_filter_recognised: "total_count (filter recognised xs) = total_count xs"
  unfolding total_count_def
  by (rule arg_cong [where f = sum_list], rule map_cong) (simp_all add: count_severity_filter_recognised)

text \<open>
  C4. For each of the five severities the entry of \<open>changes\<close> holds the number of issues
  of exactly that severity on each side, their difference \<open>to - from\<close>, and \<open>improved\<close>
  iff the difference is negative. The totals are the sums of the five counts on each side,
  so that issues of any other severity add nothing to them, with \<open>improved\<close> iff the
  difference of the totals is negative.
\<close>

theorem compareIssues_counts:
  "\<exists>r. compareIssues (IsArray f) (IsArray t) = Available r
      \<and> map fst (changes r) = severities
      \<and> (\<forall>s \<in> set severities. \<exists>c. obj_get (changes r) s = Val c
            \<and> from_value c = count_severity f s
            \<and> to_value c = count_severity t s
            \<and> diff c = int (count_severity t s) - int (count_severity f s)
            \<and> (change.improved c \<longleftrightarrow> diff c < 0))
      \<and> from_value (total r) = (\<Sum>s\<leftarrow>severities. count_severity f s)
      \<and> to_value (total r) = (\<Sum>s\<leftarrow>severities. count_severity t s)
      \<and> from_value (total r) = length (filter recognised f)
      \<and> to_value (total r) = length (filter recognised t)
      \<and> diff (total r) = int (to_value (total r)) - int (from_value (total r))
      \<and> (change.improved (total r) \<longleftrightarrow> diff (total r) < 0)"
proof -
  let ?g = "\<lambda>s. count_change_of (count_severity f s) (count_severity t s)"
  let ?r = "\<lparr> changes = map (\<lambda>s. (s, ?g s)) severities,
              total = count_change_of (total_count f) (total_count t) \<rparr>"
  have "\<forall>s \<in> set severities. \<exists>c. obj_get (changes ?r) s = Val c
            \<and> from_value c = count_severity f s
            \<and> to_value c = count_severity t s
            \<and> diff c = int (count_severity t s) - int (count_severity f s)
            \<and> (change.improved c \<longleftrightarrow> diff c < 0)"
    by (simp add: obj_get_changes count_change_of_def)
  moreover have "map fst (changes ?r) = severities"
    by (simp add: comp_def)
  moreover have "from_value (total ?r) = (\<Sum>s\<leftarrow>severities. count_severity f s)"
    "to_value (total ?r) = (\<Sum>s\<leftarrow>severities. count_severity t s)"
    "diff (total ?r) = int (to_value (total ?r)) - int (from_value (total ?r))"
    "change.improved (total ?r) \<longleftrightarrow> diff (total ?r) < 0"
    by (simp_all add: count_change_of_def total_count_def)
  moreover have "from_value (total ?r) = length (filter recognised f)"
    "to_value (total ?r) = length (filter recognised t)"
    using total_count_recognised [of f] total_count_recognised [of t]
    by (simp_all add: count_change_of_def recognised_def [abs_def])
  ultimately show ?thesis
    unfolding compareIssues_eq [of f t] by (intro exI [of _ ?r] conjI; assumption?) simp
qed

theorem compareIssues_counts_witness:
  "''MAJOR'' \<in> set severities
   \<and> (\<exists>r c. compareIssues
         (IsArray [\<lparr>severity = Some ''MAJOR''\<rparr>, \<lparr>severity = Some ''MAJOR''\<rparr>, \<lparr>severity = Some ''MAJOR''\<rparr>])
         (IsArray [\<lparr>severity = Some ''MAJOR''\<rparr>]) = Available r
        \<and> obj_get (changes r) ''MAJOR'' = Val c
        \<and> from_value c = 3 \<and> to_value c = 1 \<and> diff c = - 2 \<and> change.improved c
        \<and> from_value (total r) = 3 \<and> to_value (total r) = 1 \<and> diff (total r) = - 2
        \<and> change.improved (total r))"
proof -
  let ?f = "[\<lparr>severity = Some ''MAJOR''\<rparr>, \<lparr>severity = Some ''MAJOR''\<rparr>, \<lparr>severity = Some ''MAJOR''\<rparr>]"
  let ?t = "[\<lparr>severity = Some ''MAJOR''\<rparr>]"
  have h: "''MAJOR'' \<in> set severities"
    by (simp add: severities_def)
  have cf: "count_severity ?f ''MAJOR'' = 3" and ct: "count_severity ?t ''MAJOR'' = 1"
    by (simp_all add: count_severity_def)
  have rf: "length (filter recognised ?f) = 3" and rt: "length (filter recognised ?t) = 1"
    by (simp_all add: recognised_def severities_def)
  from compareIssues_counts [of ?f ?t] obtain r where
    r: "compareIssues (IsArray ?f) (IsArray ?t) = Available r"
    and each: "\<forall>s \<in> set severities. \<exists>c. obj_get (changes r) s = Val c
            \<and> from_value c = count_severity ?f s
            \<and> to_value c = count_severity ?t s
            \<and> diff c = int (count_severity ?t s) - int (count_severity ?f s)
            \<and> (change.improved c \<longleftrightarrow> diff c < 0)"
    and tot: "from_value (total r) = length (filter recognised ?f)"
      "to_value (total r) = length (filter recognised ?t)"
      "diff (total r) = int (to_value (total r)) - int (from_value (total r))"
      "change.improved (total r) \<longleftrightarrow> diff (total r) < 0"
    by blast
  from each h obtain c where
    c: "obj_get (changes r) ''MAJOR'' = Val c" "from_value c = count_severity ?f ''MAJOR''"
       "to_value c = count_severity ?t ''MAJOR''"
       "diff c = int (count_severity ?t ''MAJOR'') - int (count_severity ?f ''MAJOR'')"
       "change.improved c \<longleftrightarrow> diff c < 0"
    by blast
  from c cf ct have "from_value c = 3 \<and> to_value c = 1 \<and> diff c = - 2 \<and> change.improved c"
    by simp
  moreover from tot rf rt have "from_value (total r) = 3 \<and> to_value (total r) = 1
      \<and> diff (total r) = - 2 \<and> change.improved (total r)"
    by simp
  ultimately show ?thesis
    using h r c(1) by blast
qed

text \<open>The worked example of the specification: three MAJOR issues before, one after.\<close>

lemma compareIssues_major_example:
  "compareIssues
     (IsArray [\<lparr>severity = Some ''MAJOR''\<rparr>, \<lparr>severity = Some ''MAJOR''\<rparr>, \<lparr>severity = Some ''MAJOR''\<rparr>])
     (IsArray [\<lparr>severity = Some ''MAJOR''\<rparr>])
   = Available \<lparr> changes =
        [(''BLOCKER'', \<lparr>from_value = 0, to_value = 0, diff = 0, improved = False\<rparr>),
         (''CRITICAL'', \<lparr>from_value = 0, to_value = 0, diff = 0, improved = False\<rparr>),
         (''MAJOR'', \<lparr>from_value = 3, to_value = 1, diff = - 2, improved = True\<rparr>),
         (''MINOR'', \<lparr>from_value = 0, to_value = 0, diff = 0, improved = False\<rparr>),
         (''INFO'', \<lparr>from_value = 0, to_value = 0, diff = 0, improved = False\<rparr>)],
       total = \<lparr>from_value = 3, to_value = 1, diff = - 2, improved = True\<rparr> \<rparr>"
  by code_simp

text \<open>
  C3 (as amended). Issues whose severity is none of the five are left out of the
  per-severity breakdown and out of the totals as well: removing them from both inputs
  leaves the whole result unchanged, and each total is the length of the input less the
  number of such issues.
\<close>

theorem compareIssues_drops_unrecognised:
  "compareIssues (IsArray (filter recognised f)) (IsArray (filter recognised t))
     = compareIssues (IsArray f) (IsArray t)
   \<and> (\<exists>r. compareIssues (IsArray f) (IsArray t) = Available r
          \<and> from_value (total r) = length f - length (filter (\<lambda>i. \<not> recognised i) f)
          \<and> to_value (total r) = length t - length (filter (\<lambda>i. \<not> recognised i) t))"
proof -
  have "map (\<lambda>s. (s, count_change_of (count_severity (filter recognised f) s)
                                     (count_severity (filter recognised t) s))) severities
        = map (\<lambda>s. (s, count_change_of (count_severity f s) (count_severity t s))) severities"
    by (rule map_cong) (simp_all add: count_severity_filter_recognised)
  then have same: "compareIssues (IsArray (filter recognised f)) (IsArray (filter recognised t))
     = compareIssues (IsArray f) (IsArray t)"
    by (simp add: compareIssues_eq total_count_filter_recognised)
  have len: "length (filter recognised xs) = length xs - length (filter (\<lambda>i. \<not> recognised i) xs)"
    for xs :: "issue list"
    using sum_length_filter_compl [of recognised xs] by simp
  have "from_value (count_change_of (total_count f) (total_count t))
          = length f - length (filter (\<lambda>i. \<not> recognised i) f)"
    "to_value (count_change_of (total_count f) (total_count t))
          = length t - length (filter (\<lambda>i. \<not> recognised i) t)"
    using total_count_recognised [of f] total_count_recognised [of t] len [of f] len [of t]
    by (simp_all add: count_change_of_def recognised_def [abs_def])
  with same show ?thesis
    by (simp add: compareIssues_eq)
qed

theorem compareIssues_drops_unrecognised_witness:
  "compareIssues (IsArray (filter recognised
        [\<lparr>severity = Some ''MAJOR''\<rparr>, \<lparr>severity = Some ''TRIVIAL''\<rparr>, \<lparr>severity = None\<rparr>]))
      (IsArray (filter recognised [\<lparr>severity = Some ''UNKNOWN''\<rparr>]))
     = compareIssues
        (IsArray [\<lparr>severity = Some ''MAJOR''\<rparr>, \<lparr>severity = Some ''TRIVIAL''\<rparr>, \<lparr>severity = None\<rparr>])
        (IsArray [\<lparr>severity = Some ''UNKNOWN''\<rparr>])
   \<and> filter recognised
        [\<lparr>severity = Some ''MAJOR''\<rparr>, \<lparr>severity = Some ''TRIVIAL''\<rparr>, \<lparr>severity = None\<rparr>]
       = [\<lparr>severity = Some ''MAJOR''\<rparr>]
   \<and> filter recognised [\<lparr>severity = Some ''UNKNOWN''\<rparr>] = []"
  using compareIssues_drops_unrecognised
    [of "[\<lparr>severity = Some ''MAJOR''\<rparr>, \<lparr>severity = Some ''TRIVIAL''\<rparr>, \<lparr>severity = None\<rparr>]"
        "[\<lparr>severity = Some ''UNKNOWN''\<rparr>]"]
  by (simp add: recognised_def severities_def)

text \<open>
  Two issues of unrecognised severity on the first side: the total counts none of them.
\<close>

theorem compareIssues_unrecognised_counterexample:
  "compareIssues (IsArray [\<lparr>severity = Some ''TRIVIAL''\<rparr>, \<lparr>severity = None\<rparr>]) (IsArray [])
   = Available \<lparr> changes =
        [(''BLOCKER'', \<lparr>from_value = 0, to_value = 0, diff = 0, improved = False\<rparr>),
         (''CRITICAL'', \<lparr>from_value = 0, to_value = 0, diff = 0, improved = False\<rparr>),
         (''MAJOR'', \<lparr>from_value = 0, to_value = 0, diff = 0, improved = False\<rparr>),
         (''MINOR'', \<lparr>from_value = 0, to_value = 0, diff = 0, improved = False\<rparr>),
         (''INFO'', \<lparr>from_value = 0, to_value = 0, diff = 0, improved = False\<rparr>)],
       total = \<lparr>from_value = 0, to_value = 0, diff = 0, improved = False\<rparr> \<rparr>"
  by code_simp

section \<open>Metrics on one side only, and values that do not parse\<close>

lemma compareMeasures_entry:
  assumes "m \<in> set (own_keys (measures_obj f)) \<union> set (own_keys (measures_obj t))"
  shows "\<exists>chs. compareMeasures (IsArray f) (IsArray t) = Available chs
           \<and> obj_get chs m = Val (measure_change_of (measures_obj f) (measures_obj t) m)"
proof -
  from assms have "m \<in> set (all_metrics (measures_obj f) (measures_obj t))"
    by (simp add: set_all_metrics)
  then have "obj_get (map (\<lambda>m. (m, measure_change_of (measures_obj f) (measures_obj t) m))
                       (all_metrics (measures_obj f) (measures_obj t))) m
             = Val (measure_change_of (measures_obj f) (measures_obj t) m)"
    by (rule obj_get_changes)
  with compareMeasures_changes [of f t] show ?thesis
    by simp
qed

lemma own_key_iff: "m \<in> set (own_keys obj) \<longleftrightarrow> (\<exists>v. obj_get obj m = Val v)"
proof (cases "map_of obj m")
  case None
  then have "m \<notin> fst ` set obj"
    by (simp add: map_of_eq_None_iff)
  with None show ?thesis
    by (simp add: set_own_keys obj_get_def)
next
  case (Some v)
  then have "m \<in> fst ` set obj"
    by (metis map_of_eq_None_iff option.distinct(1))
  with Some show ?thesis
    by (simp add: set_own_keys obj_get_def)
qed

lemma obj_get_missing:
  assumes "m \<notin> set (own_keys obj)"
  shows "obj_get obj m = (if m \<in> set object_prototype_names then Inherited m else Undefined)"
proof -
  from assms have "map_of obj m = None"
    by (simp add: set_own_keys map_of_eq_None_iff)
  then show ?thesis
    by (simp add: obj_get_def)
qed

lemma parseFloat_Undefined: "parseFloat Undefined = NaN"
  by code_simp

lemma parseFloat_Inherited: "parseFloat (Inherited k) = NaN"
  by (simp add: parseFloat_def to_string_def parseFloat_string_def is_white_space_def
      parse_unsigned_def is_digit_def)

lemma num_or_zero_NaN: "num_or_zero NaN = Fin 0"
  by (simp add: num_or_zero_def)

lemma compareMeasures_only_to:
  assumes "m \<in> set (own_keys (measures_obj t))" and "m \<notin> set (own_keys (measures_obj f))"
  shows "\<exists>chs c v. compareMeasures (IsArray f) (IsArray t) = Available chs
           \<and> obj_get chs m = Val c
           \<and> obj_get (measures_obj t) m = Val v
           \<and> diff c = num_sub (num_or_zero (parseFloat_string v)) (Fin 0)
           \<and> to_value c = (if v = [] then Val ''0'' else Val v)
           \<and> from_value c = (if m \<in> set object_prototype_names then Inherited m else Val ''0'')"
proof -
  from assms(1) obtain v where v: "obj_get (measures_obj t) m = Val v"
    by (auto simp: own_key_iff)
  from assms(1) compareMeasures_entry [of m f t] obtain chs where
    chs: "compareMeasures (IsArray f) (IsArray t) = Available chs"
         "obj_get chs m = Val (measure_change_of (measures_obj f) (measures_obj t) m)"
    by auto
  let ?c = "measure_change_of (measures_obj f) (measures_obj t) m"
  from v obj_get_missing [OF assms(2)]
  have "diff ?c = num_sub (num_or_zero (parseFloat_string v)) (Fin 0)
        \<and> to_value ?c = (if v = [] then Val ''0'' else Val v)
        \<and> from_value ?c = (if m \<in> set object_prototype_names then Inherited m else Val ''0'')"
    by (simp add: measure_change_of_def Let_def parseFloat_Undefined parseFloat_Inherited
        num_or_zero_NaN or_string_zero_def)
       (simp add: parseFloat_def to_string_def)
  with chs v show ?thesis
    by blast
qed

lemma compareMeasures_only_from:
  assumes "m \<in> set (own_keys (measures_obj f))" and "m \<notin> set (own_keys (measures_obj t))"
  shows "\<exists>chs c v. compareMeasures (IsArray f) (IsArray t) = Available chs
           \<and> obj_get chs m = Val c
           \<and> obj_get (measures_obj f) m = Val v
           \<and> diff c = num_sub (Fin 0) (num_or_zero (parseFloat_string v))
           \<and> from_value c = (if v = [] then Val ''0'' else Val v)
           \<and> to_value c = (if m \<in> set object_prototype_names then Inherited m else Val ''0'')"
proof -
  from assms(1) obtain v where v: "obj_get (measures_obj f) m = Val v"
    by (auto simp: own_key_iff)
  from assms(1) compareMeasures_entry [of m f t] obtain chs where
    chs: "compareMeasures (IsArray f) (IsArray t) = Available chs"
         "obj_get chs m = Val (measure_change_of (measures_obj f) (measures_obj t) m)"
    by auto
  let ?c = "measure_change_of (measures_obj f) (measures_obj t) m"
  from v obj_get_missing [OF assms(2)]
  have "diff ?c = num_sub (Fin 0) (num_or_zero (parseFloat_string v))
        \<and> from_value ?c = (if v = [] then Val ''0'' else Val v)
        \<and> to_value ?c = (if m \<in> set object_prototype_names then Inherited m else Val ''0'')"
    by (simp add: measure_change_of_def Let_def parseFloat_Undefined parseFloat_Inherited
        num_or_zero_NaN or_string_zero_def)
       (simp add: parseFloat_def to_string_def)
  with chs v show ?thesis
    by blast
qed

text \<open>
  The worked example of the specification: a metric only in the later snapshot, with the
  value 10, is compared with 0 and displayed against \<open>"0"\<close>.
\<close>

lemma compareMeasures_only_to_example:
  "compareMeasures (IsArray []) (IsArray [\<lparr>metric = ''ncloc'', mvalue = ''10''\<rparr>])
     = Available [(''ncloc'', \<lparr>from_value = Val ''0'', to_value = Val ''10'',
                               diff = Fin 10, improved = False\<rparr>)]"
  by code_simp

text \<open>
  C5. The metrics compared are the keys of the two dictionaries, and a metric that is a key
  on one side only is compared with the number 0 on the other side
  (\<open>compareMeasures_only_to\<close>, \<open>compareMeasures_only_from\<close>). The field displayed for
  the missing side is \<open>"0"\<close> only when the name is not one that every object inherits:
  for the metric \<open>constructor\<close>, present in the later snapshot alone, the lookup on the
  earlier side finds \<open>Object.prototype.constructor\<close>, which is truthy, and the \<open>from\<close>
  field is that function instead of \<open>"0"\<close>.
\<close>

theorem compareMeasures_inherited_name:
  "compareMeasures (IsArray []) (IsArray [\<lparr>metric = ''constructor'', mvalue = ''10''\<rparr>])
     = Available [(''constructor'', \<lparr>from_value = Inherited ''constructor'', to_value = Val ''10'',
                                     diff = Fin 10, improved = False\<rparr>)]"
  by code_simp

text \<open>
  C6 (as amended). A value string that does not parse as a number contributes 0 to the
  difference; the comparison is produced all the same, with nothing to mark the value. The
  display field shows the original string unless that string is empty, in which case it
  shows \<open>"0"\<close>.
\<close>

theorem compareMeasures_unparseable_value:
  assumes "parseFloat_string s = NaN"
  shows "(obj_get (measures_obj f) m = Val s \<longrightarrow>
           (\<exists>chs c. compareMeasures (IsArray f) (IsArray t) = Available chs
              \<and> obj_get chs m = Val c
              \<and> diff c = num_sub (num_or_zero (parseFloat (obj_get (measures_obj t) m))) (Fin 0)
              \<and> from_value c = Val (if s = [] then ''0'' else s)))
       \<and> (obj_get (measures_obj t) m = Val s \<longrightarrow>
           (\<exists>chs c. compareMeasures (IsArray f) (IsArray t) = Available chs
              \<and> obj_get chs m = Val c
              \<and> diff c = num_sub (Fin 0) (num_or_zero (parseFloat (obj_get (measures_obj f) m)))
              \<and> to_value c = Val (if s = [] then ''0'' else s)))"
proof (intro conjI impI)
  let ?c = "measure_change_of (measures_obj f) (measures_obj t) m"
  from assms have zero: "num_or_zero (parseFloat (Val s)) = Fin 0"
    by (simp add: parseFloat_def to_string_def num_or_zero_def)
  {
    assume v: "obj_get (measures_obj f) m = Val s"
    then have "m \<in> set (own_keys (measures_obj f))"
      by (auto simp: own_key_iff)
    with compareMeasures_entry [of m f t] obtain chs where
      chs: "compareMeasures (IsArray f) (IsArray t) = Available chs" "obj_get chs m = Val ?c"
      by auto
    from v zero have "diff ?c = num_sub (num_or_zero (parseFloat (obj_get (measures_obj t) m))) (Fin 0)
        \<and> from_value ?c = Val (if s = [] then ''0'' else s)"
      by (simp add: measure_change_of_def Let_def or_string_zero_def)
    with chs show "\<exists>chs c. compareMeasures (IsArray f) (IsArray t) = Available chs
              \<and> obj_get chs m = Val c
              \<and> diff c = num_sub (num_or_zero (parseFloat (obj_get (measures_obj t) m))) (Fin 0)
              \<and> from_value c = Val (if s = [] then ''0'' else s)"
      by blast
  }
  {
    assume v: "obj_get (measures_obj t) m = Val s"
    then have "m \<in> set (own_keys (measures_obj t))"
      by (auto simp: own_key_iff)
    with compareMeasures_entry [of m f t] obtain chs where
      chs: "compareMeasures (IsArray f) (IsArray t) = Available chs" "obj_get chs m = Val ?c"
      by auto
    from v zero have "diff ?c = num_sub (Fin 0) (num_or_zero (parseFloat (obj_get (measures_obj f) m)))
        \<and> to_value ?c = Val (if s = [] then ''0'' else s)"
      by (simp add: measure_change_of_def Let_def or_string_zero_def)
    with chs show "\<exists>chs c. compareMeasures (IsArray f) (IsArray t) = Available chs
              \<and> obj_get chs m = Val c
              \<and> diff c = num_sub (Fin 0) (num_or_zero (parseFloat (obj_get (measures_obj f) m)))
              \<and> to_value c = Val (if s = [] then ''0'' else s)"
      by blast
  }
qed

theorem compareMeasures_unparseable_value_witness:
  "parseFloat_string ''n/a'' = NaN
   \<and> obj_get (measures_obj [\<lparr>metric = ''bugs'', mvalue = ''n/a''\<rparr>]) ''bugs'' = Val ''n/a''
   \<and> (\<exists>chs c. compareMeasures (IsArray [\<lparr>metric = ''bugs'', mvalue = ''n/a''\<rparr>])
                               (IsArray [\<lparr>metric = ''bugs'', mvalue = ''2''\<rparr>]) = Available chs
          \<and> obj_get chs ''bugs'' = Val c
          \<and> diff c = Fin 2
          \<and> from_value c = Val ''n/a'')"
proof -
  let ?f = "[\<lparr>metric = ''bugs'', mvalue = ''n/a''\<rparr>]"
  let ?t = "[\<lparr>metric = ''bugs'', mvalue = ''2''\<rparr>]"
  have h1: "parseFloat_string ''n/a'' = NaN"
    by code_simp
  have h2: "obj_get (measures_obj ?f) ''bugs'' = Val ''n/a''"
    by code_simp
  have d: "num_sub (num_or_zero (parseFloat (obj_get (measures_obj ?t) ''bugs''))) (Fin 0) = Fin 2"
    by code_simp
  from compareMeasures_unparseable_value [OF h1, of ?f "''bugs''" ?t] h2 d
  have "\<exists>chs c. compareMeasures (IsArray ?f) (IsArray ?t) = Available chs
          \<and> obj_get chs ''bugs'' = Val c
          \<and> diff c = Fin 2
          \<and> from_value c = Val ''n/a''"
    by simp
  with h1 h2 show ?thesis
    by (intro conjI)
qed

text \<open>
  The empty string does not parse, and it is shown as \<open>"0"\<close>, not as itself.
\<close>

theorem compareMeasures_empty_value_counterexample:
  "parseFloat_string '''' = NaN
   \<and> compareMeasures (IsArray [\<lparr>metric = ''coverage'', mvalue = ''''\<rparr>])
                     (IsArray [\<lparr>metric = ''coverage'', mvalue = ''5''\<rparr>])
     = Available [(''coverage'', \<lparr>from_value = Val ''0'', to_value = Val ''5'',
                                  diff = Fin 5, improved = True\<rparr>)]"
  by code_simp

section \<open>Properties of the top-level comparison\<close>

lemma available_compareQualityGate:
  "available (compareQualityGate a b) \<longleftrightarrow> a \<noteq> None \<and> b \<noteq> None"
  by (cases a; cases b) (simp_all add: compareQualityGate_def)

lemma available_compareMeasures:
  "available (compareMeasures a b) \<longleftrightarrow> isArray a \<and> isArray b"
  by (cases a; cases b) (simp_all add: compareMeasures_changes, simp_all add: compareMeasures_def)

lemma available_compareIssues:
  "available (compareIssues a b) \<longleftrightarrow> isArray a \<and> isArray b"
  by (cases a; cases b) (simp_all add: compareIssues_eq, simp_all add: compareIssues_def)

text \<open>
  C7. \<open>compareQualityData\<close> is a total function on snapshots: no step of it can raise
  when \<open>measures\<close> or \<open>issues\<close> is absent or not an array, or when \<open>qualityGate\<close> is
  absent. Each sub-comparison is computed from its own two fields alone and is available
  iff both are there (two arrays, or two gates), so a missing field makes its own block
  \<open>{available: false}\<close> and leaves the other blocks as they would be; the summary is
  always generated, from the three blocks.
\<close>

theorem compareQualityData_degrades_independently:
  "qualityGateChange (compareQualityData f t) = compareQualityGate (qualityGate f) (qualityGate t)
   \<and> measuresChange (compareQualityData f t) = compareMeasures (measures f) (measures t)
   \<and> issuesChange (compareQualityData f t) = compareIssues (issues f) (issues t)
   \<and> (available (qualityGateChange (compareQualityData f t))
        \<longleftrightarrow> qualityGate f \<noteq> None \<and> qualityGate t \<noteq> None)
   \<and> (available (measuresChange (compareQualityData f t))
        \<longleftrightarrow> isArray (measures f) \<and> isArray (measures t))
   \<and> (available (issuesChange (compareQualityData f t))
        \<longleftrightarrow> isArray (issues f) \<and> isArray (issues t))
   \<and> summary_of (compareQualityData f t)
        = Summary (generateSummary ((compareQualityData f t)\<lparr>summary_of := EmptyObject\<rparr>))"
  by (simp add: compareQualityData_def Let_def available_compareQualityGate
      available_compareMeasures available_compareIssues)

theorem compareQualityData_degrades_independently_witness:
  "measuresChange (compareQualityData
       \<lparr> projectInfo = None, qualityGate = None, measures = Absent,
         issues = IsArray [\<lparr>severity = Some ''MAJOR''\<rparr>], timestamp = None \<rparr>
       \<lparr> projectInfo = Some \<lparr>name = Some ''demo''\<rparr>, qualityGate = Some \<lparr>status = Some ''OK''\<rparr>,
         measures = IsArray [\<lparr>metric = ''coverage'', mvalue = ''85''\<rparr>],
         issues = IsArray [], timestamp = Some ''t2'' \<rparr>) = Unavailable
   \<and> qualityGateChange (compareQualityData
       \<lparr> projectInfo = None, qualityGate = None, measures = Absent,
         issues = IsArray [\<lparr>severity = Some ''MAJOR''\<rparr>], timestamp = None \<rparr>
       \<lparr> projectInfo = Some \<lparr>name = Some ''demo''\<rparr>, qualityGate = Some \<lparr>status = Some ''OK''\<rparr>,
         measures = IsArray [\<lparr>metric = ''coverage'', mvalue = ''85''\<rparr>],
         issues = IsArray [], timestamp = Some ''t2'' \<rparr>) = Unavailable
   \<and> available (issuesChange (compareQualityData
       \<lparr> projectInfo = None, qualityGate = None, measures = Absent,
         issues = IsArray [\<lparr>severity = Some ''MAJOR''\<rparr>], timestamp = None \<rparr>
       \<lparr> projectInfo = Some \<lparr>name = Some ''demo''\<rparr>, qualityGate = Some \<lparr>status = Some ''OK''\<rparr>,
         measures = IsArray [\<lparr>metric = ''coverage'', mvalue = ''85''\<rparr>],
         issues = IsArray [], timestamp = Some ''t2'' \<rparr>))"
  using compareQualityData_degrades_independently
    [of "\<lparr> projectInfo = None, qualityGate = None, measures = Absent,
         issues = IsArray [\<lparr>severity = Some ''MAJOR''\<rparr>], timestamp = None \<rparr>"
        "\<lparr> projectInfo = Some \<lparr>name = Some ''demo''\<rparr>, qualityGate = Some \<lparr>status = Some ''OK''\<rparr>,
         measures = IsArray [\<lparr>metric = ''coverage'', mvalue = ''85''\<rparr>],
         issues = IsArray [], timestamp = Some ''t2'' \<rparr>"]
  by (simp add: compareMeasures_def compareQualityGate_def available_compareIssues)

text \<open>The whole result for these two snapshots.\<close>

lemma compareQualityData_partial_example:
  "compareQualityData
       \<lparr> projectInfo = None, qualityGate = None, measures = Absent,
         issues = IsArray [\<lparr>severity = Some ''MAJOR''\<rparr>], timestamp = None \<rparr>
       \<lparr> projectInfo = Some \<lparr>name = Some ''demo''\<rparr>, qualityGate = Some \<lparr>status = Some ''OK''\<rparr>,
         measures = IsArray [\<lparr>metric = ''coverage'', mvalue = ''85''\<rparr>],
         issues = IsArray [], timestamp = Some ''t2'' \<rparr>
   = \<lparr> project = ''demo'', fromDate = ''Unknown'', toDate = ''t2'',
       qualityGateChange = Unavailable,
       measuresChange = Unavailable,
       issuesChange = Available \<lparr> changes =
          [(''BLOCKER'', \<lparr>from_value = 0, to_value = 0, diff = 0, improved = False\<rparr>),
           (''CRITICAL'', \<lparr>from_value = 0, to_value = 0, diff = 0, improved = False\<rparr>),
           (''MAJOR'', \<lparr>from_value = 1, to_value = 0, diff = - 1, improved = True\<rparr>),
           (''MINOR'', \<lparr>from_value = 0, to_value = 0, diff = 0, improved = False\<rparr>),
           (''INFO'', \<lparr>from_value = 0, to_value = 0, diff = 0, improved = False\<rparr>)],
         total = \<lparr>from_value = 1, to_value = 0, diff = - 1, improved = True\<rparr> \<rparr>,
       summary_of = Summary \<lparr> qualityGate_text = ''No change'',
         improvements = [''Total issues: 1 -> 0 (1 fixed)''], degradations = [] \<rparr> \<rparr>"
  by code_simp

section \<open>Properties of the summary\<close>

lemma num_abs_gt0: "num_gt0 (num_abs d) \<longleftrightarrow> nonzero_number d"
  by (cases d) (auto simp: nonzero_number_def)

lemma summarize_measure_step:
  "summarize_measure s (m, ch) =
     (if change.improved ch \<and> nonzero_number (diff ch)
        then s\<lparr>improvements := improvements s @ [measure_line m ch]\<rparr>
      else if \<not> change.improved ch \<and> nonzero_number (diff ch)
        then s\<lparr>degradations := degradations s @ [measure_line m ch]\<rparr>
      else s)"
  by (simp add: summarize_measure_def num_abs_gt0)

lemma foldl_summarize_measure:
  "foldl summarize_measure s es =
     s\<lparr> improvements := improvements s
          @ map (\<lambda>(m, ch). measure_line m ch)
              (filter (\<lambda>(m, ch). change.improved ch \<and> nonzero_number (diff ch)) es),
        degradations := degradations s
          @ map (\<lambda>(m, ch). measure_line m ch)
              (filter (\<lambda>(m, ch). \<not> change.improved ch \<and> nonzero_number (diff ch)) es) \<rparr>"
proof (induction es arbitrary: s)
  case Nil
  then show ?case by simp
next
  case (Cons e es)
  obtain m ch where e: "e = (m, ch)"
    by (cases e)
  show ?case
    by (simp add: e summarize_measure_step Cons.IH)
qed

lemma generateSummary_lists:
  "improvements (generateSummary c)
     = map (\<lambda>(m, ch). measure_line m ch)
         (filter (\<lambda>(m, ch). change.improved ch \<and> nonzero_number (diff ch))
            (own_entries (measure_entries c)))
       @ issue_lines c True"
  "degradations (generateSummary c)
     = map (\<lambda>(m, ch). measure_line m ch)
         (filter (\<lambda>(m, ch). \<not> change.improved ch \<and> nonzero_number (diff ch))
            (own_entries (measure_entries c)))
       @ issue_lines c False"
  by (auto simp: generateSummary_def summarize_issues_def summarize_measures_def
      summarize_gate_def measure_entries_def issue_lines_def foldl_summarize_measure
      own_entries_def
      split: block.splits)

text \<open>
  C8 (as amended). As multisets, the improvements are one line
  \<open>"<metric>: <from> -> <to>"\<close> for every entry whose difference is a number other than
  zero and whose \<open>improved\<close> flag is set, and the degradations one such line for every
  entry whose difference is a number other than zero and whose flag is not set; an entry
  whose difference is zero or \<open>NaN\<close> gives no line. When the issue block is available
  and the difference of its totals is not zero, one more line
  \<open>"Total issues: <from> -> <to> (<|diff|> fixed)"\<close> is among the improvements if the
  total is improved, and otherwise the same line ending in \<open>new\<close> is among the
  degradations.
\<close>

theorem generateSummary_lines:
  "mset (improvements (generateSummary c))
     = image_mset (\<lambda>(m, ch). measure_line m ch)
         (filter_mset (\<lambda>(m, ch). change.improved ch \<and> nonzero_number (diff ch))
            (mset (measure_entries c)))
       + mset (issue_lines c True)
   \<and> mset (degradations (generateSummary c))
     = image_mset (\<lambda>(m, ch). measure_line m ch)
         (filter_mset (\<lambda>(m, ch). \<not> change.improved ch \<and> nonzero_number (diff ch))
            (mset (measure_entries c)))
       + mset (issue_lines c False)"
  by (simp add: generateSummary_lists mset_own_entries)

theorem generateSummary_lines_witness:
  "mset (improvements (generateSummary
      \<lparr> project = ''demo'', fromDate = ''t1'', toDate = ''t2'',
        qualityGateChange = Unavailable,
        measuresChange = Available
          [(''bugs'', \<lparr>from_value = Val ''5'', to_value = Val ''2'', diff = Fin (- 3), improved = True\<rparr>),
           (''ncloc'', \<lparr>from_value = Val ''10'', to_value = Val ''12'', diff = Fin 2, improved = False\<rparr>),
           (''coverage'', \<lparr>from_value = Val ''70'', to_value = Val ''70'', diff = Fin 0, improved = False\<rparr>)],
        issuesChange = Available
          \<lparr> changes = [], total = \<lparr>from_value = 5, to_value = 2, diff = - 3, improved = True\<rparr> \<rparr>,
        summary_of = EmptyObject \<rparr>))
     = {#''bugs: 5 -> 2'', ''Total issues: 5 -> 2 (3 fixed)''#}
   \<and> mset (degradations (generateSummary
      \<lparr> project = ''demo'', fromDate = ''t1'', toDate = ''t2'',
        qualityGateChange = Unavailable,
        measuresChange = Available
          [(''bugs'', \<lparr>from_value = Val ''5'', to_value = Val ''2'', diff = Fin (- 3), improved = True\<rparr>),
           (''ncloc'', \<lparr>from_value = Val ''10'', to_value = Val ''12'', diff = Fin 2, improved = False\<rparr>),
           (''coverage'', \<lparr>from_value = Val ''70'', to_value = Val ''70'', diff = Fin 0, improved = False\<rparr>)],
        issuesChange = Available
          \<lparr> changes = [], total = \<lparr>from_value = 5, to_value = 2, diff = - 3, improved = True\<rparr> \<rparr>,
        summary_of = EmptyObject \<rparr>))
     = {#''ncloc: 10 -> 12''#}"
proof -
  have t: "total_line \<lparr>from_value = 5, to_value = 2, diff = - 3, improved = True\<rparr> ''fixed''
             = ''Total issues: 5 -> 2 (3 fixed)''"
    by code_simp
  show ?thesis
    using generateSummary_lines
      [of "\<lparr> project = ''demo'', fromDate = ''t1'', toDate = ''t2'',
        qualityGateChange = Unavailable,
        measuresChange = Available
          [(''bugs'', \<lparr>from_value = Val ''5'', to_value = Val ''2'', diff = Fin (- 3), improved = True\<rparr>),
           (''ncloc'', \<lparr>from_value = Val ''10'', to_value = Val ''12'', diff = Fin 2, improved = False\<rparr>),
           (''coverage'', \<lparr>from_value = Val ''70'', to_value = Val ''70'', diff = Fin 0, improved = False\<rparr>)],
        issuesChange = Available
          \<lparr> changes = [], total = \<lparr>from_value = 5, to_value = 2, diff = - 3, improved = True\<rparr> \<rparr>,
        summary_of = EmptyObject \<rparr>"]
    by (simp add: measure_entries_def issue_lines_def nonzero_number_def measure_line_def
        to_string_def t)
qed

text \<open>
  Two infinite values give the difference \<open>NaN\<close>, which is not zero, and the summary has
  no line for the metric.
\<close>

theorem generateSummary_nan_counterexample:
  "compareMeasures (IsArray [\<lparr>metric = ''coverage'', mvalue = ''Infinity''\<rparr>])
                   (IsArray [\<lparr>metric = ''coverage'', mvalue = ''Infinity''\<rparr>])
     = Available [(''coverage'', \<lparr>from_value = Val ''Infinity'', to_value = Val ''Infinity'',
                                  diff = NaN, improved = False\<rparr>)]
   \<and> NaN \<noteq> Fin 0
   \<and> generateSummary
        \<lparr> project = ''demo'', fromDate = ''t1'', toDate = ''t2'',
          qualityGateChange = Unavailable,
          measuresChange = Available
            [(''coverage'', \<lparr>from_value = Val ''Infinity'', to_value = Val ''Infinity'',
                             diff = NaN, improved = False\<rparr>)],
          issuesChange = Unavailable,
          summary_of = EmptyObject \<rparr>
     = \<lparr> qualityGate_text = ''No change'', improvements = [], degradations = [] \<rparr>"
  by code_simp

end
